theory Spec2Isabelle
  imports Main "HOL-Library.Sublist"
begin

section \<open>Strings of the plugin\<close>

text \<open>
  A JavaScript string is a sequence of UTF-16 code units. It is modelled as a
  \<open>string\<close> (a \<open>char list\<close>); one \<open>char\<close> stands for one code unit whose value is
  below 256. Nothing below counts characters except to find the placeholder token, so the
  properties do not depend on the width of a code unit.
\<close>

definition dq :: char where
  "dq = CHR 0x22"

text \<open>The template literal \<^verbatim>\<open>`"${s}"`\<close>: \<open>s\<close> between two double quote characters.\<close>

definition quoted :: "string \<Rightarrow> string" where
  "quoted s = dq # s @ [dq]"

text \<open>\<^verbatim>\<open>Array.prototype.join(sep)\<close> on an array of strings.\<close>

fun join :: "string \<Rightarrow> string list \<Rightarrow> string" where
  "join sep [] = []"
| "join sep [x] = x"
| "join sep (x # y # ys) = x @ sep @ join sep (y # ys)"

text \<open>
  \<^verbatim>\<open>String.prototype.trim\<close> removes leading and trailing white space and line
  terminators. Among the code units below 256 these are TAB, LF, VT, FF, CR, SPACE and
  NBSP.
\<close>

definition isWhiteSpace :: "char \<Rightarrow> bool" where
  "isWhiteSpace c \<longleftrightarrow>
     c = CHR 0x09 \<or> c = CHR 0x0A \<or> c = CHR 0x0B \<or> c = CHR 0x0C \<or> c = CHR 0x0D \<or>
     c = CHR 0x20 \<or> c = CHR 0xA0"

definition trim :: "string \<Rightarrow> string" where
  "trim s = rev (dropWhile isWhiteSpace (rev (dropWhile isWhiteSpace s)))"

subsection \<open>\<^verbatim>\<open>customArgs.replace(/\{path\}/g, quotedPath)\<close>\<close>

text \<open>The text the regular expression \<^verbatim>\<open>/\{path\}/g\<close> matches.\<close>

definition path_token :: string where
  "path_token = ''{path}''"

text \<open>
  The second argument of \<^verbatim>\<open>replace\<close> is a replacement \<^emph>\<open>pattern\<close>, not a plain
  string: ECMAScript expands it with \<open>GetSubstitution\<close> at every match. The regular
  expression has no capture group and no named group, so \<^verbatim>\<open>$1\<close> .. \<^verbatim>\<open>$99\<close> and
  \<^verbatim>\<open>$<\<close> stay as they are, and four patterns are expanded: \<^verbatim>\<open>$$\<close> to one dollar
  sign, \<^verbatim>\<open>$&\<close> to the matched text, \<^verbatim>\<open>$`\<close> to the part of the subject before the
  match, and \<^verbatim>\<open>$'\<close> to the part after it. \<open>m\<close> is the matched text, \<open>s\<close> the whole
  subject, \<open>pos\<close> the index of the match in \<open>s\<close>.
\<close>

fun getSubstitution :: "string \<Rightarrow> string \<Rightarrow> nat \<Rightarrow> string \<Rightarrow> string" where
  "getSubstitution m s pos [] = []"
| "getSubstitution m s pos [c] = [c]"
| "getSubstitution m s pos (c # d # r) =
     (if c = CHR 0x24 then
        if d = CHR 0x24 then CHR 0x24 # getSubstitution m s pos r
        else if d = CHR 0x26 then m @ getSubstitution m s pos r
        else if d = CHR 0x60 then take pos s @ getSubstitution m s pos r
        else if d = CHR 0x27 then drop (pos + length m) s @ getSubstitution m s pos r
        else c # getSubstitution m s pos (d # r)
      else c # getSubstitution m s pos (d # r))"

text \<open>
  The global replace walks the subject from left to right; \<open>rest\<close> is the part of the
  subject \<open>s\<close> from index \<open>pos\<close> on. At a match the expansion of the replacement is
  emitted and the scan goes on behind the match; elsewhere the code unit is copied.
\<close>

function replace_from :: "string \<Rightarrow> nat \<Rightarrow> string \<Rightarrow> string \<Rightarrow> string" where
  "replace_from s pos [] rep = []"
| "replace_from s pos (c # cs) rep =
     (if prefix path_token (c # cs)
      then getSubstitution path_token s pos rep
           @ replace_from s (pos + length path_token) (drop (length path_token) (c # cs)) rep
      else c # replace_from s (pos + 1) cs rep)"
  by pat_completeness auto
termination
  by (relation "measure (\<lambda>(s, pos, rest, rep). length rest)") (auto simp: path_token_def)

definition replace_path :: "string \<Rightarrow> string \<Rightarrow> string" where
  "replace_path s rep = replace_from s 0 s rep"

text \<open>
  The specification's words for the same step: every occurrence of the literal token is
  replaced by the given text itself. This is the reference the code is compared with.
\<close>

function substitute_every :: "string \<Rightarrow> string \<Rightarrow> string" where
  "substitute_every [] new = []"
| "substitute_every (c # cs) new =
     (if prefix path_token (c # cs)
      then new @ substitute_every (drop (length path_token) (c # cs)) new
      else c # substitute_every cs new)"
  by pat_completeness auto
termination
  by (relation "measure (\<lambda>(rest, new). length rest)") (auto simp: path_token_def)

section \<open>Data of \<^verbatim>\<open>main.ts\<close>\<close>

record PluginSettings =
  terminalBin :: "string option"
  terminalArgs :: "string option"

record TerminalCommand =
  binary :: string
  args :: "string list"

definition DEFAULT_SETTINGS :: PluginSettings where
  "DEFAULT_SETTINGS = \<lparr>terminalBin = None, terminalArgs = None\<rparr>"

section \<open>\<^verbatim>\<open>inferTerminalCommand\<close>\<close>

text \<open>
  The result of \<^verbatim>\<open>os.platform()\<close> is the parameter \<open>platform\<close>. \<open>Inl\<close> is fp-ts's
  \<^verbatim>\<open>left\<close> (the error message), \<open>Inr\<close> its \<^verbatim>\<open>right\<close>.
\<close>

definition inferTerminalCommand :: "string \<Rightarrow> string + TerminalCommand" where
  "inferTerminalCommand platform =
     (if platform = ''win32'' then
        Inr \<lparr>binary = ''powershell.exe'', args = [''-noexit'']\<rparr>
      else if platform = ''darwin'' then
        Inr \<lparr>binary = ''Terminal'', args = []\<rparr>
      else if platform = ''linux'' then
        Inr \<lparr>binary = ''gnome-terminal'', args = [''--working-directory'']\<rparr>
      else Inl (''Unsupported platform: '' @ platform))"

section \<open>\<^verbatim>\<open>createTerminalCommand\<close>\<close>

text \<open>
  The function folds over \<^verbatim>\<open>settings.terminalBin\<close> with two closures. The first runs
  when no terminal is configured and receives the inferred command; the second receives
  the configured terminal. Each closure is a definition of its own here.
\<close>

definition inferredShape :: "string \<Rightarrow> string \<Rightarrow> TerminalCommand \<Rightarrow> string + string" where
  "inferredShape platform folderPath termCmd =
     (let quotedPath = quoted folderPath in
      if platform = ''win32'' then
        Inr (''start /d '' @ quotedPath @ '' '' @ binary termCmd @ '' ''
             @ join '' '' (args termCmd))
      else if platform = ''darwin'' then
        Inr (''open -a '' @ binary termCmd @ '' '' @ quotedPath)
      else if platform = ''linux'' then
        Inr (binary termCmd @ '' '' @ join '' '' (args termCmd) @ ''='' @ quotedPath)
      else Inl ''Unsupported platform'')"

text \<open>\<^verbatim>\<open>pipe(settings.terminalArgs, getOrElse(() => ''))\<close>, the constant \<^verbatim>\<open>customArgs\<close>.\<close>

definition customArgs :: "PluginSettings \<Rightarrow> string" where
  "customArgs settings = (case terminalArgs settings of None \<Rightarrow> [] | Some a \<Rightarrow> a)"

definition customShape :: "string \<Rightarrow> PluginSettings \<Rightarrow> string \<Rightarrow> string \<Rightarrow> string + string" where
  "customShape platform settings folderPath customTerminal =
     (let quotedPath = quoted folderPath;
          quotedTerminal = quoted customTerminal;
          processedArgs = replace_path (customArgs settings) quotedPath
      in if trim (customArgs settings) \<noteq> [] then Inr (quotedTerminal @ '' '' @ processedArgs)
         else if platform = ''win32'' then
           Inr (''start /d '' @ quotedPath @ '' '' @ quotedTerminal)
         else if platform = ''darwin'' then
           Inr (''open -a '' @ quotedTerminal @ '' '' @ quotedPath)
         else if platform = ''linux'' then
           Inr (quotedTerminal @ '' --working-directory='' @ quotedPath)
         else Inl ''Unsupported platform'')"

definition createTerminalCommand :: "string \<Rightarrow> PluginSettings \<Rightarrow> string \<Rightarrow> string + string" where
  "createTerminalCommand platform settings folderPath =
     (case terminalBin settings of
        None \<Rightarrow>
          (case inferTerminalCommand platform of
             Inl error \<Rightarrow> Inl error
           | Inr termCmd \<Rightarrow> inferredShape platform folderPath termCmd)
      | Some customTerminal \<Rightarrow> customShape platform settings folderPath customTerminal)"

section \<open>The settings tab\<close>

text \<open>
  The two \<^verbatim>\<open>onChange\<close> handlers of \<^verbatim>\<open>TerminalSettingTab.display\<close>: the text of the
  field is trimmed, and an empty result is stored as \<^verbatim>\<open>none\<close>.
\<close>

definition onChangeTerminalBin :: "string \<Rightarrow> PluginSettings \<Rightarrow> PluginSettings" where
  "onChangeTerminalBin val settings =
     settings\<lparr>terminalBin := (if trim val = [] then None else Some (trim val))\<rparr>"

definition onChangeTerminalArgs :: "string \<Rightarrow> PluginSettings \<Rightarrow> PluginSettings" where
  "onChangeTerminalArgs val settings =
     settings\<lparr>terminalArgs := (if trim val = [] then None else Some (trim val))\<rparr>"

section \<open>The second copy of the plugin source\<close>

text \<open>
  The repository holds a second source file, \<^verbatim>\<open>src/unnamed/part_000\<close>, with the same two
  functions in an earlier form: the settings have no arguments field, and the inferred
  command carries a \<^verbatim>\<open>command\<close> instead of a \<^verbatim>\<open>binary\<close>. Its definitions carry the
  suffix \<open>_alt\<close>.
\<close>

record PluginSettings_alt =
  terminalBin_alt :: "string option"

record TerminalCommand_alt =
  command_alt :: string
  args_alt :: "string list"

definition inferTerminalCommand_alt :: "string \<Rightarrow> string + TerminalCommand_alt" where
  "inferTerminalCommand_alt platform =
     (if platform = ''win32'' then
        Inr \<lparr>command_alt = ''start powershell.exe'', args_alt = []\<rparr>
      else if platform = ''darwin'' then
        Inr \<lparr>command_alt = ''open'', args_alt = [''-a'', ''Terminal'']\<rparr>
      else if platform = ''linux'' then
        Inr \<lparr>command_alt = ''gnome-terminal'', args_alt = [''--working-directory'']\<rparr>
      else Inl (''Unsupported platform: '' @ platform))"

definition inferredShape_alt :: "string \<Rightarrow> string \<Rightarrow> TerminalCommand_alt \<Rightarrow> string + string" where
  "inferredShape_alt platform folderPath termCmd =
     (if platform = ''win32'' then
        Inr (command_alt termCmd @ '' '' @ join '' '' (args_alt termCmd)
             @ '' '' @ [dq] @ ''cd /d '' @ [CHR 0x5C, dq] @ folderPath @ [CHR 0x5C, dq, dq])
      else if platform = ''darwin'' then
        Inr (command_alt termCmd @ '' '' @ join '' '' (args_alt termCmd)
             @ '' '' @ quoted folderPath)
      else if platform = ''linux'' then
        Inr (command_alt termCmd @ '' '' @ join '' '' (args_alt termCmd)
             @ ''='' @ quoted folderPath)
      else Inl ''Unsupported platform'')"

definition customShape_alt :: "string \<Rightarrow> string \<Rightarrow> string \<Rightarrow> string + string" where
  "customShape_alt platform folderPath customTerminal =
     (if platform = ''win32'' then Inr (quoted customTerminal)
      else if platform = ''darwin'' then
        Inr (''open -a '' @ quoted customTerminal @ '' '' @ quoted folderPath)
      else if platform = ''linux'' then
        Inr (quoted customTerminal @ '' --working-directory='' @ quoted folderPath)
      else Inl ''Unsupported platform'')"

definition createTerminalCommand_alt :: "string \<Rightarrow> PluginSettings_alt \<Rightarrow> string \<Rightarrow> string + string" where
  "createTerminalCommand_alt platform settings folderPath =
     (case terminalBin_alt settings of
        None \<Rightarrow>
          (case inferTerminalCommand_alt platform of
             Inl error \<Rightarrow> Inl error
           | Inr termCmd \<Rightarrow> inferredShape_alt platform folderPath termCmd)
      | Some customTerminal \<Rightarrow> customShape_alt platform folderPath customTerminal)"

section \<open>Facts about the string operations\<close>

text \<open>\<^verbatim>\<open>trim\<close> leaves nothing exactly when every code unit is white space.\<close>

lemma dropWhile_all_iff:
  "(\<forall>c\<in>set (dropWhile P xs). P c) \<longleftrightarrow> (\<forall>c\<in>set xs. P c)"
proof
  assume h: "\<forall>c\<in>set (dropWhile P xs). P c"
  have "dropWhile P xs = []"
  proof (rule ccontr)
    assume ne: "dropWhile P xs \<noteq> []"
    then have "\<not> P (hd (dropWhile P xs))" by (rule hd_dropWhile)
    moreover from ne have "hd (dropWhile P xs) \<in> set (dropWhile P xs)" by (rule hd_in_set)
    ultimately show False using h by blast
  qed
  then show "\<forall>c\<in>set xs. P c" by (simp only: dropWhile_eq_Nil_conv)
next
  assume "\<forall>c\<in>set xs. P c"
  then show "\<forall>c\<in>set (dropWhile P xs). P c" by (blast dest: set_dropWhileD)
qed

lemma trim_Nil_iff: "trim s = [] \<longleftrightarrow> (\<forall>c\<in>set s. isWhiteSpace c)"
  by (simp add: trim_def dropWhile_all_iff)

text \<open>
  A replacement without a dollar sign is its own expansion, so on such a replacement the
  code's \<^verbatim>\<open>replace\<close> is the literal substitution of the specification. A subject
  without the token is returned unchanged.
\<close>

lemma getSubstitution_plain:
  "CHR 0x24 \<notin> set rep \<Longrightarrow> getSubstitution m s pos rep = rep"
  by (induction m s pos rep rule: getSubstitution.induct) auto

lemma replace_from_plain:
  "CHR 0x24 \<notin> set rep \<Longrightarrow> replace_from s pos rest rep = substitute_every rest rep"
  by (induction s pos rest rep rule: replace_from.induct) (simp_all add: getSubstitution_plain)

lemma replace_from_no_token:
  "\<not> sublist path_token rest \<Longrightarrow> replace_from s pos rest rep = rest"
  by (induction s pos rest rep rule: replace_from.induct) (auto simp: sublist_Cons_right)

lemma replace_path_plain:
  "CHR 0x24 \<notin> set rep \<Longrightarrow> replace_path s rep = substitute_every s rep"
  by (simp add: replace_path_def replace_from_plain)

lemma replace_path_no_token:
  "\<not> sublist path_token s \<Longrightarrow> replace_path s rep = s"
  by (simp add: replace_path_def replace_from_no_token)

text \<open>
  The literal substitution is fixed by two equations: a text without the token is left as
  it is, and the first token of a text is replaced and the substitution goes on behind it.
  An occurrence cannot start before a token and run into it, since the opening brace
  occurs in the token only once.
\<close>

lemma token_no_straddle:
  assumes "\<not> prefix path_token (x # a)"
  shows "\<not> prefix path_token ((x # a) @ path_token @ b)"
proof
  assume "prefix path_token ((x # a) @ path_token @ b)"
  then have "prefix path_token (x # a)
      \<or> (\<exists>us. path_token = (x # a) @ us \<and> prefix us (path_token @ b))"
    by (simp only: prefix_append)
  with assms obtain us where us: "path_token = (x # a) @ us" "prefix us (path_token @ b)"
    by blast
  from us(1) assms have "us \<noteq> []" by auto
  with us(2) have "hd us = CHR ''{''"
    by (cases us) (auto simp: path_token_def)
  moreover from us(1) have "set us \<subseteq> set ''path}''"
    by (auto simp: path_token_def)
  moreover from \<open>us \<noteq> []\<close> have "hd us \<in> set us" by simp
  ultimately show False by auto
qed

lemma substitute_every_no_token:
  "\<not> sublist path_token s \<Longrightarrow> substitute_every s new = s"
  by (induction s new rule: substitute_every.induct) (auto simp: sublist_Cons_right)

lemma substitute_every_first_token:
  "\<not> sublist path_token a \<Longrightarrow>
     substitute_every (a @ path_token @ b) new = a @ new @ substitute_every b new"
proof (induction a)
  case Nil
  show ?case by (simp add: path_token_def)
next
  case (Cons x a)
  then have "\<not> prefix path_token (x # a)" and "\<not> sublist path_token a"
    by (auto simp: sublist_Cons_right)
  with Cons.IH token_no_straddle [of x a b] show ?case by simp
qed

section \<open>Unfolding the definitions\<close>

lemmas shape_defs = createTerminalCommand_def inferTerminalCommand_def inferredShape_def
  customShape_def customArgs_def

lemmas alt_defs = createTerminalCommand_alt_def inferTerminalCommand_alt_def
  inferredShape_alt_def customShape_alt_def

lemmas string_defs = quoted_def dq_def replace_path_def path_token_def trim_def isWhiteSpace_def

text \<open>
  The two outcomes of the closure for a configured terminal: with arguments that are not
  blank the command is the quoted terminal, a space and the processed arguments, on every
  platform; with blank arguments it is the shape of the platform.
\<close>

lemma createTerminalCommand_custom_template:
  assumes "terminalBin settings = Some B" and "trim (customArgs settings) \<noteq> []"
  shows "createTerminalCommand platform settings folderPath
           = Inr (quoted B @ '' '' @ replace_path (customArgs settings) (quoted folderPath))"
  using assms by (simp add: createTerminalCommand_def customShape_def)

lemma createTerminalCommand_custom_blank:
  assumes "terminalBin settings = Some B" and "trim (customArgs settings) = []"
  shows "createTerminalCommand platform settings folderPath =
           (if platform = ''win32'' then Inr (''start /d '' @ quoted folderPath @ '' '' @ quoted B)
            else if platform = ''darwin'' then Inr (''open -a '' @ quoted B @ '' '' @ quoted folderPath)
            else if platform = ''linux'' then Inr (quoted B @ '' --working-directory='' @ quoted folderPath)
            else Inl ''Unsupported platform'')"
  using assms by (simp add: createTerminalCommand_def customShape_def)

section \<open>Platform inference\<close>

text \<open>
  C1. For each of the three recognised platform identifiers \<^verbatim>\<open>inferTerminalCommand\<close>
  returns a terminal binary name and an argument list and no error; for every other
  identifier it returns the error message that ends in exactly that identifier, and no
  command. The function of \<^verbatim>\<open>main.ts\<close> returns \<^verbatim>\<open>powershell.exe\<close> with
  \<^verbatim>\<open>-noexit\<close>, \<^verbatim>\<open>Terminal\<close> with no argument, and \<^verbatim>\<open>gnome-terminal\<close> with
  \<^verbatim>\<open>--working-directory\<close>. The copy in \<^verbatim>\<open>src/unnamed/part_000\<close> returns a command and
  an argument list that name the same three terminals: \<^verbatim>\<open>start powershell.exe\<close> with no
  argument, \<^verbatim>\<open>open\<close> with the arguments \<^verbatim>\<open>-a\<close> and \<^verbatim>\<open>Terminal\<close>, and
  \<^verbatim>\<open>gnome-terminal\<close> with \<^verbatim>\<open>--working-directory\<close>. Both copies return the same
  error.
\<close>

theorem inferTerminalCommand_platforms:
  "inferTerminalCommand ''win32'' = Inr \<lparr>binary = ''powershell.exe'', args = [''-noexit'']\<rparr>
   \<and> inferTerminalCommand ''darwin'' = Inr \<lparr>binary = ''Terminal'', args = []\<rparr>
   \<and> inferTerminalCommand ''linux''
       = Inr \<lparr>binary = ''gnome-terminal'', args = [''--working-directory'']\<rparr>
   \<and> inferTerminalCommand_alt ''win32''
       = Inr \<lparr>command_alt = ''start powershell.exe'', args_alt = []\<rparr>
   \<and> inferTerminalCommand_alt ''darwin''
       = Inr \<lparr>command_alt = ''open'', args_alt = [''-a'', ''Terminal'']\<rparr>
   \<and> inferTerminalCommand_alt ''linux''
       = Inr \<lparr>command_alt = ''gnome-terminal'', args_alt = [''--working-directory'']\<rparr>
   \<and> (platform \<notin> {''win32'', ''darwin'', ''linux''} \<longrightarrow>
        inferTerminalCommand platform = Inl (''Unsupported platform: '' @ platform)
        \<and> inferTerminalCommand_alt platform = Inl (''Unsupported platform: '' @ platform)
        \<and> drop (length ''Unsupported platform: '')
             (''Unsupported platform: '' @ platform) = platform)"
  by (simp add: inferTerminalCommand_def inferTerminalCommand_alt_def)

theorem inferTerminalCommand_platforms_witness:
  "''freebsd'' \<notin> {''win32'', ''darwin'', ''linux''}
   \<and> inferTerminalCommand ''freebsd'' = Inl ''Unsupported platform: freebsd''
   \<and> inferTerminalCommand_alt ''freebsd'' = Inl ''Unsupported platform: freebsd''"
  using inferTerminalCommand_platforms [of "''freebsd''"] by simp

section \<open>Commands for the inferred terminal\<close>

text \<open>
  With no terminal configured, \<^verbatim>\<open>createTerminalCommand\<close> of \<^verbatim>\<open>main.ts\<close> succeeds on
  the three platforms. The folder path stands in the command between two double quote
  characters, the text before and behind it holds no double quote, and the inferred binary
  name is part of that text.
\<close>

lemma createTerminalCommand_inferred:
  assumes "terminalBin settings = None"
  shows "createTerminalCommand ''win32'' settings folderPath
           = Inr (''start /d '' @ quoted folderPath @ '' powershell.exe -noexit'')"
    and "createTerminalCommand ''darwin'' settings folderPath
           = Inr (''open -a Terminal '' @ quoted folderPath)"
    and "createTerminalCommand ''linux'' settings folderPath
           = Inr (''gnome-terminal --working-directory='' @ quoted folderPath)"
  using assms by (simp_all add: shape_defs)

lemma createTerminalCommand_inferred_quotes:
  assumes "terminalBin settings = None" and "platform \<in> {''win32'', ''darwin'', ''linux''}"
  shows "\<exists>pre post. createTerminalCommand platform settings folderPath
                       = Inr (pre @ quoted folderPath @ post)
           \<and> dq \<notin> set pre \<and> dq \<notin> set post
           \<and> sublist (if platform = ''win32'' then ''powershell.exe''
                       else if platform = ''darwin'' then ''Terminal''
                       else ''gnome-terminal'') (pre @ post)"
proof -
  consider "platform = ''win32''" | "platform = ''darwin''" | "platform = ''linux''"
    using assms(2) by auto
  then show ?thesis
  proof cases
    case 1
    have "sublist ''powershell.exe'' (''start /d '' @ '' powershell.exe -noexit'')"
      by code_simp
    then show ?thesis
      unfolding 1 createTerminalCommand_inferred(1) [OF assms(1)]
      by (intro exI [of _ "''start /d ''"] exI [of _ "'' powershell.exe -noexit''"])
         (simp add: dq_def)
  next
    case 2
    have "sublist ''Terminal'' (''open -a Terminal '' @ [])"
      by code_simp
    then show ?thesis
      unfolding 2 createTerminalCommand_inferred(2) [OF assms(1)]
      by (intro exI [of _ "''open -a Terminal ''"] exI [of _ "[]"]) (simp add: dq_def)
  next
    case 3
    have "sublist ''gnome-terminal'' (''gnome-terminal --working-directory='' @ [])"
      by code_simp
    then show ?thesis
      unfolding 3 createTerminalCommand_inferred(3) [OF assms(1)]
      by (intro exI [of _ "''gnome-terminal --working-directory=''"] exI [of _ "[]"])
         (simp add: dq_def)
  qed
qed

text \<open>
  C2. With no terminal configured the command contains the folder path wrapped in exactly
  one pair of double quotes. The copy of \<^verbatim>\<open>createTerminalCommand\<close> in
  \<^verbatim>\<open>src/unnamed/part_000\<close> does not do this on \<^verbatim>\<open>win32\<close>: for the folder
  \<^verbatim>\<open>C:\vault\<close> it puts the path between backslash-escaped quotes inside a quoted
  \<^verbatim>\<open>cd\<close> command, so the path between two double quote characters is no part of the
  command. The function of \<^verbatim>\<open>main.ts\<close> does what the claim says
  (\<open>createTerminalCommand_inferred_quotes\<close>).
\<close>

theorem createTerminalCommand_alt_win32_scenario:
  \<open>createTerminalCommand_alt ''win32'' \<lparr>terminalBin_alt = None\<rparr> (''C:'' @ [CHR 0x5C] @ ''vault'')
     = Inr (''start powershell.exe  "cd /d '' @ [CHR 0x5C] @ ''"C:'' @ [CHR 0x5C] @ ''vault''
            @ [CHR 0x5C] @ ''""'')
   \<and> \<not> sublist (quoted (''C:'' @ [CHR 0x5C] @ ''vault''))
         (''start powershell.exe  "cd /d '' @ [CHR 0x5C] @ ''"C:'' @ [CHR 0x5C] @ ''vault''
            @ [CHR 0x5C] @ ''""'')\<close>
  by (simp add: alt_defs string_defs sublist_Cons_right)

section \<open>Unsupported platforms\<close>

text \<open>
  C3 as stated (on a platform outside the three the command fails whatever is configured)
  is false: with a terminal and arguments configured the platform is never looked at.
\<close>

theorem unsupported_platform_counterexample:
  \<open>''freebsd'' \<notin> {''win32'', ''darwin'', ''linux''}
   \<and> createTerminalCommand ''freebsd''
        \<lparr>terminalBin = Some ''xterm'', terminalArgs = Some ''-e {path}''\<rparr> ''/tmp''
       = Inr ''"xterm" -e "/tmp"''
   \<and> \<not> isl (createTerminalCommand ''freebsd''
        \<lparr>terminalBin = Some ''xterm'', terminalArgs = Some ''-e {path}''\<rparr> ''/tmp'')\<close>
  by (simp add: shape_defs string_defs)

text \<open>
  C3, amended. On a platform identifier outside the three recognised ones:
  with no terminal configured \<^verbatim>\<open>createTerminalCommand\<close> returns the error of
  \<^verbatim>\<open>inferTerminalCommand\<close>, the message that carries the identifier; with a terminal
  configured and blank arguments (absent, empty or white space only) it returns an
  unsupported-platform error; with a terminal configured and arguments that are not blank
  it succeeds with the quoted terminal, a space and the processed arguments.
\<close>

theorem createTerminalCommand_unsupported:
  assumes "platform \<notin> {''win32'', ''darwin'', ''linux''}"
  shows "(terminalBin settings = None \<longrightarrow>
            inferTerminalCommand platform = Inl (''Unsupported platform: '' @ platform)
            \<and> createTerminalCommand platform settings folderPath
                = Inl (''Unsupported platform: '' @ platform))
       \<and> (terminalBin settings \<noteq> None \<and> (\<forall>c\<in>set (customArgs settings). isWhiteSpace c) \<longrightarrow>
            (\<exists>e. createTerminalCommand platform settings folderPath = Inl e
                 \<and> prefix ''Unsupported platform'' e))
       \<and> (\<forall>B. terminalBin settings = Some B \<and> trim (customArgs settings) \<noteq> [] \<longrightarrow>
            createTerminalCommand platform settings folderPath
              = Inr (quoted B @ '' '' @ replace_path (customArgs settings) (quoted folderPath)))"
proof (intro conjI impI allI)
  assume "terminalBin settings = None"
  with assms show "createTerminalCommand platform settings folderPath
      = Inl (''Unsupported platform: '' @ platform)"
    by (simp add: createTerminalCommand_def inferTerminalCommand_def)
next
  from assms show "inferTerminalCommand platform = Inl (''Unsupported platform: '' @ platform)"
    by (simp add: inferTerminalCommand_def)
next
  assume h: "terminalBin settings \<noteq> None \<and> (\<forall>c\<in>set (customArgs settings). isWhiteSpace c)"
  then obtain B where B: "terminalBin settings = Some B" by auto
  from h have "trim (customArgs settings) = []" by (simp add: trim_Nil_iff)
  from createTerminalCommand_custom_blank [OF B this] assms
  have "createTerminalCommand platform settings folderPath = Inl ''Unsupported platform''"
    by simp
  then show "\<exists>e. createTerminalCommand platform settings folderPath = Inl e
      \<and> prefix ''Unsupported platform'' e"
    by simp
next
  fix B
  assume "terminalBin settings = Some B \<and> trim (customArgs settings) \<noteq> []"
  then show "createTerminalCommand platform settings folderPath
      = Inr (quoted B @ '' '' @ replace_path (customArgs settings) (quoted folderPath))"
    by (simp add: createTerminalCommand_custom_template)
qed

theorem createTerminalCommand_unsupported_witness:
  \<open>''freebsd'' \<notin> {''win32'', ''darwin'', ''linux''}
   \<and> inferTerminalCommand ''freebsd'' = Inl ''Unsupported platform: freebsd''
   \<and> createTerminalCommand ''freebsd'' \<lparr>terminalBin = None, terminalArgs = None\<rparr> ''/tmp''
       = Inl ''Unsupported platform: freebsd''
   \<and> (\<exists>e. createTerminalCommand ''freebsd''
              \<lparr>terminalBin = Some ''xterm'', terminalArgs = Some '' ''\<rparr> ''/tmp'' = Inl e
           \<and> prefix ''Unsupported platform'' e)
   \<and> createTerminalCommand ''freebsd''
        \<lparr>terminalBin = Some ''xterm'', terminalArgs = Some ''-e {path}''\<rparr> ''/tmp''
       = Inr ''"xterm" -e "/tmp"''\<close>
  using
    createTerminalCommand_unsupported [where platform = "''freebsd''"
      and settings = "\<lparr>terminalBin = None, terminalArgs = None\<rparr>" and folderPath = "''/tmp''"]
    createTerminalCommand_unsupported [where platform = "''freebsd''"
      and settings = "\<lparr>terminalBin = Some ''xterm'', terminalArgs = Some '' ''\<rparr>"
      and folderPath = "''/tmp''"]
    createTerminalCommand_unsupported [where platform = "''freebsd''"
      and settings = "\<lparr>terminalBin = Some ''xterm'', terminalArgs = Some ''-e {path}''\<rparr>"
      and folderPath = "''/tmp''"]
  by (simp add: customArgs_def string_defs)

section \<open>The arguments template\<close>

text \<open>
  C4. With a terminal and a non-blank arguments template configured the command is the
  quoted terminal, a space, and the template with every \<^verbatim>\<open>{path}\<close> replaced by the
  quoted folder path. The code passes the quoted path to \<^verbatim>\<open>replace\<close> as a replacement
  pattern, so a folder path with a dollar pattern is not inserted as it is: for the folder
  \<^verbatim>\<open>/home/user/A$$B\<close> the command names \<^verbatim>\<open>/home/user/A$B\<close>, where the literal
  substitution of the claim gives \<^verbatim>\<open>/home/user/A$$B\<close>.
\<close>

theorem template_dollar_scenario:
  \<open>createTerminalCommand ''linux''
      \<lparr>terminalBin = Some ''xterm'', terminalArgs = Some ''--workdir {path}''\<rparr>
      ''/home/user/A$$B''
     = Inr ''"xterm" --workdir "/home/user/A$B"''
   \<and> quoted ''xterm'' @ '' '' @ substitute_every ''--workdir {path}'' (quoted ''/home/user/A$$B'')
     = ''"xterm" --workdir "/home/user/A$$B"''\<close>
  by (simp add: shape_defs string_defs)

text \<open>
  For a folder path without a dollar sign the code and the literal substitution agree, on
  every platform; the literal substitution replaces every occurrence of the token.
\<close>

lemma createTerminalCommand_template_plain:
  assumes "terminalBin settings = Some B" and "terminalArgs settings = Some T"
    and "trim T \<noteq> []" and "CHR 0x24 \<notin> set folderPath"
  shows "createTerminalCommand platform settings folderPath
           = Inr (quoted B @ '' '' @ substitute_every T (quoted folderPath))"
proof -
  from assms(2,3) have "trim (customArgs settings) \<noteq> []"
    by (simp add: customArgs_def)
  moreover from assms(4) have "CHR 0x24 \<notin> set (quoted folderPath)"
    by (simp add: quoted_def dq_def)
  ultimately show ?thesis
    using assms(1,2)
    by (simp add: createTerminalCommand_custom_template replace_path_plain customArgs_def)
qed

lemma substitute_every_two_tokens:
  \<open>substitute_every ''{path} and {path}.'' ''"/a b"'' = ''"/a b" and "/a b".''\<close>
  by (simp add: path_token_def)

section \<open>Blank settings\<close>

text \<open>
  C5 as stated (a configured terminal that is empty or white space only gives the same
  command as no configured terminal) is false for \<^verbatim>\<open>createTerminalCommand\<close>: it takes a
  present terminal as it is.
\<close>

theorem blank_binary_counterexample:
  \<open>createTerminalCommand ''linux'' \<lparr>terminalBin = Some '' '', terminalArgs = None\<rparr> ''/tmp''
     = Inr ''" " --working-directory="/tmp"''
   \<and> createTerminalCommand ''linux'' \<lparr>terminalBin = None, terminalArgs = None\<rparr> ''/tmp''
     = Inr ''gnome-terminal --working-directory="/tmp"''
   \<and> createTerminalCommand ''linux'' \<lparr>terminalBin = Some '' '', terminalArgs = None\<rparr> ''/tmp''
     \<noteq> createTerminalCommand ''linux'' \<lparr>terminalBin = None, terminalArgs = None\<rparr> ''/tmp''\<close>
  by (simp add: shape_defs string_defs)

text \<open>
  C5, amended. The settings tab stores a terminal text that is empty or white space only
  as absent; the command built from the settings it stored is the command built with no
  terminal configured, which is the result of platform inference, for every platform and
  folder path.
\<close>

theorem onChangeTerminalBin_blank:
  assumes "\<forall>c\<in>set val. isWhiteSpace c"
  shows "terminalBin (onChangeTerminalBin val settings) = None
       \<and> createTerminalCommand platform (onChangeTerminalBin val settings) folderPath
         = createTerminalCommand platform (settings\<lparr>terminalBin := None\<rparr>) folderPath
       \<and> createTerminalCommand platform (onChangeTerminalBin val settings) folderPath
         = (case inferTerminalCommand platform of
              Inl error \<Rightarrow> Inl error
            | Inr termCmd \<Rightarrow> inferredShape platform folderPath termCmd)"
proof -
  from assms have "trim val = []" by (simp add: trim_Nil_iff)
  then show ?thesis by (simp add: onChangeTerminalBin_def createTerminalCommand_def)
qed

theorem onChangeTerminalBin_blank_witness:
  \<open>list_all isWhiteSpace ''  ''
   \<and> terminalBin (onChangeTerminalBin ''  '' \<lparr>terminalBin = Some ''xterm'', terminalArgs = None\<rparr>)
       = None
   \<and> createTerminalCommand ''linux''
        (onChangeTerminalBin ''  '' \<lparr>terminalBin = Some ''xterm'', terminalArgs = None\<rparr>) ''/tmp''
       = Inr ''gnome-terminal --working-directory="/tmp"''\<close>
  using onChangeTerminalBin_blank [where val = "''  ''" and platform = "''linux''"
      and settings = "\<lparr>terminalBin = Some ''xterm'', terminalArgs = None\<rparr>"
      and folderPath = "''/tmp''"]
  by (simp add: shape_defs string_defs list_all_iff)

text \<open>
  C6 as stated (with a terminal configured and a blank template, the command is the
  platform's default shape with the quoted terminal in place of the inferred binary) is
  false on \<^verbatim>\<open>win32\<close>: the default shape there ends in the inferred argument
  \<^verbatim>\<open>-noexit\<close>, which the command for a configured terminal does not have.
\<close>

theorem blank_template_counterexample:
  \<open>inferTerminalCommand ''win32'' = Inr \<lparr>binary = ''powershell.exe'', args = [''-noexit'']\<rparr>
   \<and> inferredShape ''win32'' (''C:'' @ [CHR 0x5C] @ ''vault'')
        \<lparr>binary = quoted ''wt.exe'', args = [''-noexit'']\<rparr>
       = Inr (''start /d "C:'' @ [CHR 0x5C] @ ''vault" "wt.exe" -noexit'')
   \<and> createTerminalCommand ''win32'' \<lparr>terminalBin = Some ''wt.exe'', terminalArgs = None\<rparr>
        (''C:'' @ [CHR 0x5C] @ ''vault'')
       = Inr (''start /d "C:'' @ [CHR 0x5C] @ ''vault" "wt.exe"'')
   \<and> createTerminalCommand ''win32'' \<lparr>terminalBin = Some ''wt.exe'', terminalArgs = None\<rparr>
        (''C:'' @ [CHR 0x5C] @ ''vault'')
       \<noteq> inferredShape ''win32'' (''C:'' @ [CHR 0x5C] @ ''vault'')
           \<lparr>binary = quoted ''wt.exe'', args = [''-noexit'']\<rparr>\<close>
  by (simp add: shape_defs string_defs)

text \<open>
  C6, amended. With a terminal \<open>B\<close> configured and an arguments template that is
  absent, empty or white space only: on \<^verbatim>\<open>darwin\<close> and \<^verbatim>\<open>linux\<close> the command is
  the platform's default shape with the quoted \<open>B\<close> in place of the inferred binary; on
  \<^verbatim>\<open>win32\<close> it is \<^verbatim>\<open>start /d\<close>, the quoted folder path and the quoted \<open>B\<close>,
  without the inferred argument; and on every platform the result is the one for an absent
  template.
\<close>

theorem createTerminalCommand_blank_template:
  assumes "terminalBin settings = Some B"
    and "\<forall>c\<in>set (customArgs settings). isWhiteSpace c"
  shows "(platform = ''darwin'' \<or> platform = ''linux'' \<longrightarrow>
            (\<exists>termCmd. inferTerminalCommand platform = Inr termCmd
               \<and> createTerminalCommand platform settings folderPath
                   = inferredShape platform folderPath (termCmd\<lparr>binary := quoted B\<rparr>)))
       \<and> (platform = ''win32'' \<longrightarrow>
            createTerminalCommand platform settings folderPath
              = Inr (''start /d '' @ quoted folderPath @ '' '' @ quoted B))
       \<and> (platform = ''darwin'' \<longrightarrow>
            createTerminalCommand platform settings folderPath
              = Inr (''open -a '' @ quoted B @ '' '' @ quoted folderPath))
       \<and> (platform = ''linux'' \<longrightarrow>
            createTerminalCommand platform settings folderPath
              = Inr (quoted B @ '' --working-directory='' @ quoted folderPath))
       \<and> createTerminalCommand platform settings folderPath
           = createTerminalCommand platform (settings\<lparr>terminalArgs := None\<rparr>) folderPath"
proof -
  from assms(2) have blank: "trim (customArgs settings) = []"
    by (simp add: trim_Nil_iff)
  have blank': "trim (customArgs (settings\<lparr>terminalArgs := None\<rparr>)) = []"
    by (simp add: customArgs_def trim_def)
  from assms(1) have B': "terminalBin (settings\<lparr>terminalArgs := None\<rparr>) = Some B"
    by simp
  show ?thesis
    unfolding createTerminalCommand_custom_blank [OF assms(1) blank]
      createTerminalCommand_custom_blank [OF B' blank']
    by (simp add: inferTerminalCommand_def inferredShape_def)
qed

theorem createTerminalCommand_blank_template_witness:
  \<open>list_all isWhiteSpace (customArgs \<lparr>terminalBin = Some ''iTerm'', terminalArgs = Some '' ''\<rparr>)
   \<and> createTerminalCommand ''darwin''
        \<lparr>terminalBin = Some ''iTerm'', terminalArgs = Some '' ''\<rparr> ''/tmp''
       = Inr ''open -a "iTerm" "/tmp"''
   \<and> createTerminalCommand ''linux''
        \<lparr>terminalBin = Some ''iTerm'', terminalArgs = Some '' ''\<rparr> ''/tmp''
       = Inr ''"iTerm" --working-directory="/tmp"''
   \<and> createTerminalCommand ''win32''
        \<lparr>terminalBin = Some ''iTerm'', terminalArgs = Some '' ''\<rparr> ''/tmp''
       = Inr ''start /d "/tmp" "iTerm"''
   \<and> createTerminalCommand ''linux''
        \<lparr>terminalBin = Some ''iTerm'', terminalArgs = Some '' ''\<rparr> ''/tmp''
       = createTerminalCommand ''linux''
        \<lparr>terminalBin = Some ''iTerm'', terminalArgs = None\<rparr> ''/tmp''\<close>
  using
    createTerminalCommand_blank_template [where platform = "''darwin''" and B = "''iTerm''"
      and settings = "\<lparr>terminalBin = Some ''iTerm'', terminalArgs = Some '' ''\<rparr>"
      and folderPath = "''/tmp''"]
    createTerminalCommand_blank_template [where platform = "''linux''" and B = "''iTerm''"
      and settings = "\<lparr>terminalBin = Some ''iTerm'', terminalArgs = Some '' ''\<rparr>"
      and folderPath = "''/tmp''"]
    createTerminalCommand_blank_template [where platform = "''win32''" and B = "''iTerm''"
      and settings = "\<lparr>terminalBin = Some ''iTerm'', terminalArgs = Some '' ''\<rparr>"
      and folderPath = "''/tmp''"]
  by (simp add: shape_defs string_defs)

section \<open>Concrete scenarios\<close>

text \<open>
  C7. On \<^verbatim>\<open>linux\<close> with no terminal configured and the folder
  \<^verbatim>\<open>/home/user/My Notes\<close> the command is exactly
  \<^verbatim>\<open>gnome-terminal --working-directory="/home/user/My Notes"\<close>, in both copies of the
  function and whatever the arguments setting holds.
\<close>

theorem linux_default_scenario:
  \<open>createTerminalCommand ''linux'' \<lparr>terminalBin = None, terminalArgs = a\<rparr> ''/home/user/My Notes''
     = Inr ''gnome-terminal --working-directory="/home/user/My Notes"''
   \<and> createTerminalCommand_alt ''linux'' \<lparr>terminalBin_alt = None\<rparr> ''/home/user/My Notes''
     = Inr ''gnome-terminal --working-directory="/home/user/My Notes"''\<close>
  by (simp add: shape_defs alt_defs string_defs)

text \<open>
  C8. On \<^verbatim>\<open>darwin\<close> with the terminal \<^verbatim>\<open>iTerm\<close>, the template
  \<^verbatim>\<open>-e "ls {path}"\<close> and the folder \<^verbatim>\<open>/home/user/My Notes\<close> the command is exactly
  \<^verbatim>\<open>"iTerm" -e "ls "/home/user/My Notes""\<close>: the quotes around the inserted path are
  not escaped.
\<close>

theorem macos_iterm_scenario:
  \<open>createTerminalCommand ''darwin''
      \<lparr>terminalBin = Some ''iTerm'', terminalArgs = Some ''-e "ls {path}"''\<rparr>
      ''/home/user/My Notes''
     = Inr ''"iTerm" -e "ls "/home/user/My Notes""''\<close>
  by (simp add: shape_defs string_defs)

section \<open>Where the folder path and the terminal appear\<close>

text \<open>
  C9 as stated (with a non-blank template that has no \<^verbatim>\<open>{path}\<close>, the command does
  not contain the folder path) is false when the template or the terminal already
  contains the text of the path.
\<close>

theorem template_without_token_counterexample:
  \<open>trim ''--working-directory=/tmp'' \<noteq> []
   \<and> \<not> sublist path_token ''--working-directory=/tmp''
   \<and> createTerminalCommand ''linux''
        \<lparr>terminalBin = Some ''xterm'', terminalArgs = Some ''--working-directory=/tmp''\<rparr> ''/tmp''
       = Inr ''"xterm" --working-directory=/tmp''
   \<and> sublist ''/tmp'' ''"xterm" --working-directory=/tmp''\<close>
  by (simp add: shape_defs string_defs sublist_Cons_right)

text \<open>
  C9, amended. With a terminal configured and a template that is not empty after
  trimming and has no occurrence of \<^verbatim>\<open>{path}\<close>, the command is the quoted terminal,
  a space and the template unchanged, for every folder path and platform: the folder path
  has no influence on it.
\<close>

theorem createTerminalCommand_template_without_token:
  assumes "terminalBin settings = Some B" and "terminalArgs settings = Some T"
    and "trim T \<noteq> []" and "\<not> sublist path_token T"
  shows "createTerminalCommand platform settings folderPath = Inr (quoted B @ '' '' @ T)"
proof -
  from assms(2,3) have "trim (customArgs settings) \<noteq> []"
    by (simp add: customArgs_def)
  with assms(1,2,4) show ?thesis
    by (simp add: createTerminalCommand_custom_template replace_path_no_token customArgs_def)
qed

theorem createTerminalCommand_template_without_token_witness:
  \<open>trim ''-e ls'' \<noteq> []
   \<and> \<not> sublist path_token ''-e ls''
   \<and> createTerminalCommand ''linux''
        \<lparr>terminalBin = Some ''xterm'', terminalArgs = Some ''-e ls''\<rparr> ''/home/user/My Notes''
       = Inr ''"xterm" -e ls''\<close>
  using createTerminalCommand_template_without_token [where platform = "''linux''"
      and settings = "\<lparr>terminalBin = Some ''xterm'', terminalArgs = Some ''-e ls''\<rparr>"
      and B = "''xterm''" and T = "''-e ls''" and folderPath = "''/home/user/My Notes''"]
  by (simp add: string_defs sublist_Cons_right)

text \<open>
  C10. Whenever a terminal is configured and \<^verbatim>\<open>createTerminalCommand\<close> succeeds, the
  command contains the configured terminal between double quotes, in the branch of the
  arguments template and in the branch of the platform shapes, in both copies of the
  function; and with a terminal configured the function of \<^verbatim>\<open>main.ts\<close> succeeds on
  each of the three platforms.
\<close>

theorem custom_terminal_quoted_in_output:
  "(terminalBin settings = Some B
      \<and> createTerminalCommand platform settings folderPath = Inr out
      \<longrightarrow> sublist (quoted B) out)
   \<and> (terminalBin_alt settings' = Some B
      \<and> createTerminalCommand_alt platform settings' folderPath = Inr out'
      \<longrightarrow> sublist (quoted B) out')
   \<and> (terminalBin settings = Some B \<and> platform \<in> {''win32'', ''darwin'', ''linux''}
      \<longrightarrow> (\<exists>cmd. createTerminalCommand platform settings folderPath = Inr cmd))"
proof (intro conjI impI)
  assume h: "terminalBin settings = Some B
      \<and> createTerminalCommand platform settings folderPath = Inr out"
  show "sublist (quoted B) out"
  proof (cases "trim (customArgs settings) = []")
    case True
    from h createTerminalCommand_custom_blank [OF conjunct1 [OF h] True, of platform folderPath]
    have "out = ''start /d '' @ quoted folderPath @ '' '' @ quoted B
        \<or> out = ''open -a '' @ quoted B @ '' '' @ quoted folderPath
        \<or> out = quoted B @ '' --working-directory='' @ quoted folderPath"
      by (auto split: if_splits)
    moreover have "sublist (quoted B) ((''start /d '' @ quoted folderPath @ '' '') @ quoted B)"
      by (rule sublist_append_leftI)
    moreover have "sublist (quoted B) (''open -a '' @ quoted B @ '' '' @ quoted folderPath)"
      by (rule sublist_appendI)
    moreover have "sublist (quoted B) (quoted B @ '' --working-directory='' @ quoted folderPath)"
      by (rule sublist_append_rightI)
    ultimately show ?thesis by auto
  next
    case False
    from h createTerminalCommand_custom_template [OF conjunct1 [OF h] False, of platform folderPath]
    have "out = quoted B @ '' '' @ replace_path (customArgs settings) (quoted folderPath)"
      by simp
    then show ?thesis by simp
  qed
next
  assume h: "terminalBin_alt settings' = Some B
      \<and> createTerminalCommand_alt platform settings' folderPath = Inr out'"
  then have "out' = quoted B
      \<or> out' = ''open -a '' @ quoted B @ '' '' @ quoted folderPath
      \<or> out' = quoted B @ '' --working-directory='' @ quoted folderPath"
    by (auto simp: createTerminalCommand_alt_def customShape_alt_def split: if_splits)
  moreover have "sublist (quoted B) (''open -a '' @ quoted B @ '' '' @ quoted folderPath)"
    by (rule sublist_appendI)
  moreover have "sublist (quoted B) (quoted B @ '' --working-directory='' @ quoted folderPath)"
    by (rule sublist_append_rightI)
  ultimately show "sublist (quoted B) out'" by auto
next
  assume h: "terminalBin settings = Some B \<and> platform \<in> {''win32'', ''darwin'', ''linux''}"
  then show "\<exists>cmd. createTerminalCommand platform settings folderPath = Inr cmd"
    by (auto simp: createTerminalCommand_def customShape_def Let_def)
qed

theorem custom_terminal_quoted_in_output_witness:
  \<open>createTerminalCommand ''win32'' \<lparr>terminalBin = Some ''wt.exe'', terminalArgs = None\<rparr> ''/tmp''
     = Inr ''start /d "/tmp" "wt.exe"''
   \<and> sublist (quoted ''wt.exe'') ''start /d "/tmp" "wt.exe"''
   \<and> createTerminalCommand_alt ''win32'' \<lparr>terminalBin_alt = Some ''wt.exe''\<rparr> ''/tmp''
     = Inr ''"wt.exe"''
   \<and> sublist (quoted ''wt.exe'') ''"wt.exe"''\<close>
  using custom_terminal_quoted_in_output [where platform = "''win32''" and B = "''wt.exe''"
      and settings = "\<lparr>terminalBin = Some ''wt.exe'', terminalArgs = None\<rparr>"
      and settings' = "\<lparr>terminalBin_alt = Some ''wt.exe''\<rparr>"
      and folderPath = "''/tmp''" and out = \<open>''start /d "/tmp" "wt.exe"''\<close>
      and out' = \<open>''"wt.exe"''\<close>]
  by (simp add: shape_defs alt_defs string_defs)

end
